theory Spec2Isabelle
  imports Main "HOL-Library.Sublist"
begin

section \<open>Python values, strings and errors\<close>

text \<open>
  The cogs are Python over the discord.py client library.  Every raise of the source is a
  value of \<open>error\<close>; a function that can raise returns \<open>error + 'a\<close> with \<open>Inl\<close> the
  exception.  Strings are byte lists; the emoji of the source are their UTF-8 bytes.
\<close>

datatype error =
    TypeError
  | AttributeError
  | UnboundLocalError
  | Forbidden
  | CheckFailure
  | ExtensionAlreadyLoaded
  | ExtensionNotLoaded
  | ExtensionNotFound
  | ExtensionFailed
  | ModuleNotFoundError

text \<open>\<open>isinstance(e, DiscordException)\<close>: what \<open>except DiscordException\<close> catches.\<close>

definition DiscordException :: "error \<Rightarrow> bool" where
  "DiscordException e =
     (case e of
        Forbidden \<Rightarrow> True
      | CheckFailure \<Rightarrow> True
      | ExtensionAlreadyLoaded \<Rightarrow> True
      | ExtensionNotLoaded \<Rightarrow> True
      | ExtensionNotFound \<Rightarrow> True
      | ExtensionFailed \<Rightarrow> True
      | _ \<Rightarrow> False)"

definition ebind :: "error + 'a \<Rightarrow> ('a \<Rightarrow> error + 'b) \<Rightarrow> error + 'b" where
  "ebind m f = (case m of Inl e \<Rightarrow> Inl e | Inr x \<Rightarrow> f x)"

definition newline :: string where
  "newline = [CHR 0x0A]"

text \<open>\<open>sep.join(xs)\<close>.\<close>

fun join :: "string \<Rightarrow> string list \<Rightarrow> string" where
  "join sep [] = []"
| "join sep [x] = x"
| "join sep (x # y # ys) = x @ sep @ join sep (y # ys)"

text \<open>\<open>s.replace("_", " ")\<close> and \<open>s.capitalize()\<close>, on ASCII.\<close>

definition replace_underscores :: "string \<Rightarrow> string" where
  "replace_underscores s = map (\<lambda>c. if c = CHR ''_'' then CHR '' '' else c) s"

definition upper :: "char \<Rightarrow> char" where
  "upper c = (let n = (of_char c :: nat) in if 97 \<le> n \<and> n \<le> 122 then char_of (n - 32) else c)"

definition lower :: "char \<Rightarrow> char" where
  "lower c = (let n = (of_char c :: nat) in if 65 \<le> n \<and> n \<le> 90 then char_of (n + 32) else c)"

fun capitalize :: "string \<Rightarrow> string" where
  "capitalize [] = []"
| "capitalize (c # cs) = upper c # map lower cs"

text \<open>\<open>str(n)\<close> for an integer: decimal digits, with a minus sign when negative.\<close>

fun show_nat :: "nat \<Rightarrow> string" where
  "show_nat n = (if n < 10 then [char_of (48 + n)]
                 else show_nat (n div 10) @ [char_of (48 + n mod 10)])"

declare show_nat.simps [simp del]

definition show_int :: "int \<Rightarrow> string" where
  "show_int i = (if i < 0 then CHR ''-'' # show_nat (nat (- i)) else show_nat (nat i))"

text \<open>
  The quotient of two integers rounded to the nearest integer, a tie to the even
  neighbour.
\<close>

definition round_half_even :: "int \<Rightarrow> int \<Rightarrow> int" where
  "round_half_even n d =
     (let q = n div d; r = n mod d
      in if 2 * r < d then q
         else if d < 2 * r then q + 1
         else if even q then q else q + 1)"

text \<open>The emoji of the permission diff, as UTF-8: U+2705, U+274C, U+2B1C and the arrow U+279C.\<close>

definition check_mark :: string where
  "check_mark = [CHR 0xE2, CHR 0x9C, CHR 0x85]"

definition cross_mark :: string where
  "cross_mark = [CHR 0xE2, CHR 0x9D, CHR 0x8C]"

definition white_square :: string where
  "white_square = [CHR 0xE2, CHR 0xAC, CHR 0x9C]"

definition arrow :: string where
  "arrow = [CHR 0xE2, CHR 0x9E, CHR 0x9C]"

section \<open>Channels, overwrites and embeds\<close>

text \<open>
  The class of a guild channel.  \<open>OtherChannel\<close> stands for every \<open>GuildChannel\<close> that is
  neither a text, a voice nor a category channel (a store or stage channel).
\<close>

datatype channel_class = TextChannel | VoiceChannel | CategoryChannel | OtherChannel

text \<open>The key of a permission overwrite: a role or a member, compared by class and id.\<close>

datatype target = Role nat | Member nat

text \<open>
  A \<open>PermissionOverwrite\<close> holds, for each permission name, \<open>True\<close>, \<open>False\<close> or nothing;
  two overwrites are equal when they hold the same values.  \<open>PermissionOverwrite()\<close> is the
  empty map.
\<close>

type_synonym PermissionOverwrite = "string \<rightharpoonup> bool"

text \<open>
  The values that \<open>getattr\<close> reads off a snapshot: \<open>None\<close>, a bool, an int, a str, a category
  channel (its id and name) and the bound method \<open>is_nsfw\<close> of a snapshot.
\<close>

datatype 'c pyval =
    PNone
  | PBool bool
  | PInt int
  | PStr string
  | PCategory nat string
  | PMethod 'c

text \<open>
  A channel snapshot.  \<open>obj\<close> is the identity of the snapshot object and \<open>repr\<close> what
  \<open>repr()\<close> prints for it: both are only read through the bound method \<open>is_nsfw\<close>.  \<open>nsfw\<close> is
  what \<open>is_nsfw()\<close> returns.  Every attribute that the handler reads for a class is an
  attribute that class has.
\<close>

record guild_channel =
  cls :: channel_class
  obj :: nat
  repr :: string
  mention :: string
  name :: string
  topic :: "string option"
  nsfw :: bool
  slowmode_delay :: int
  bitrate :: int
  user_limit :: int
  category :: "(nat \<times> string) option"
  overwrites :: "target \<rightharpoonup> PermissionOverwrite"

type_synonym pyvalue = "guild_channel pyval"

datatype Color = dark_blue | blue | dark_orange | red

text \<open>
  \<open>discord.Embed\<close>: the parts the cogs set.  A field is its name, its value and the inline
  flag.
\<close>

record embed =
  title :: "string option"
  description :: "string option"
  color :: Color
  embed_fields :: "(string \<times> string \<times> bool) list"
  timestamp :: "nat option"
  thumbnail :: "string option"

text \<open>
  What the handler takes from discord.py, from the bot's utilities and from the Python
  runtime: the order in which a \<open>PermissionOverwrite\<close> iterates its permission names,
  \<open>bot.utils.time.stringify_duration\<close>, the \<open>mention\<close> of a role or member, and
  \<open>round_kbps\<close>, which is \<open>round(bps / 1000)\<close>: Python divides in floating point and rounds
  the float.
\<close>

record lib =
  PURE_FLAGS :: "string list"
  stringify_duration :: "int \<Rightarrow> string"
  target_mention :: "target \<Rightarrow> string"
  round_kbps :: "int \<Rightarrow> int"

subsection \<open>Python equality and \<open>str()\<close>\<close>

definition class_name :: "channel_class \<Rightarrow> string" where
  "class_name c = (case c of TextChannel \<Rightarrow> ''TextChannel'' | VoiceChannel \<Rightarrow> ''VoiceChannel''
                   | CategoryChannel \<Rightarrow> ''CategoryChannel'' | OtherChannel \<Rightarrow> ''GuildChannel'')"

text \<open>
  \<open>a == b\<close>.  A bool equals the int of its value; channels are equal when their ids are;
  bound methods are equal when they are the same function of the same object.
\<close>

fun py_eq :: "pyvalue \<Rightarrow> pyvalue \<Rightarrow> bool" where
  "py_eq PNone PNone = True"
| "py_eq (PBool a) (PBool b) = (a = b)"
| "py_eq (PInt a) (PInt b) = (a = b)"
| "py_eq (PBool a) (PInt b) = ((if a then 1 else 0) = b)"
| "py_eq (PInt a) (PBool b) = (a = (if b then 1 else 0))"
| "py_eq (PStr a) (PStr b) = (a = b)"
| "py_eq (PCategory i m) (PCategory j n) = (i = j)"
| "py_eq (PMethod a) (PMethod b) = (cls a = cls b \<and> obj a = obj b)"
| "py_eq x y = False"

fun py_str :: "pyvalue \<Rightarrow> string" where
  "py_str PNone = ''None''"
| "py_str (PBool b) = (if b then ''True'' else ''False'')"
| "py_str (PInt i) = show_int i"
| "py_str (PStr s) = s"
| "py_str (PCategory i n) = n"
| "py_str (PMethod c) = ''<bound method '' @ class_name (cls c) @ ''.is_nsfw of '' @ repr c @ ''>''"

subsection \<open>The permission diff\<close>

definition overwrites_for :: "guild_channel \<Rightarrow> target \<Rightarrow> PermissionOverwrite" where
  "overwrites_for ch t = (case overwrites ch t of Some ov \<Rightarrow> ov | None \<Rightarrow> Map.empty)"

text \<open>Iterating an overwrite yields \<open>(name, value)\<close> for each permission name, in a fixed order.\<close>

definition iter_overwrite :: "lib \<Rightarrow> PermissionOverwrite \<Rightarrow> (string \<times> bool option) list" where
  "iter_overwrite L ov = map (\<lambda>k. (k, ov k)) (PURE_FLAGS L)"

text \<open>The two \<open>if\<close>/\<open>elif\<close>/\<open>else\<close> chains that pick \<open>before_emoji\<close> and \<open>after_emoji\<close>.\<close>

fun emoji :: "bool option \<Rightarrow> string" where
  "emoji (Some True) = check_mark"
| "emoji (Some False) = cross_mark"
| "emoji None = white_square"

definition perm_line :: "string \<times> bool option \<Rightarrow> string \<times> bool option \<Rightarrow> string" where
  "perm_line before_perm after_perm =
     (let perm_name = capitalize (replace_underscores (fst before_perm))
      in ''**`'' @ perm_name @ '':`** '' @ emoji (snd before_perm) @ '' '' @ arrow @ '' ''
           @ emoji (snd after_perm))"

text \<open>The inner loop over \<open>zip(before_overwrites, after_overwrites)\<close>.\<close>

fun perm_lines :: "((string \<times> bool option) \<times> (string \<times> bool option)) list \<Rightarrow> string list" where
  "perm_lines [] = []"
| "perm_lines ((before_perm, after_perm) # rest) =
     (if snd before_perm \<noteq> snd after_perm
      then perm_line before_perm after_perm # perm_lines rest
      else perm_lines rest)"

definition overwrite_header :: "lib \<Rightarrow> target \<Rightarrow> string" where
  "overwrite_header L overwrite_for =
     ''**Overwrite changes for '' @ target_mention L overwrite_for @ '':**''"

text \<open>
  The outer loop, \<open>embed_lines\<close> being its result.  The source iterates a Python set, whose
  order is not fixed: the list \<open>all_overwrites\<close> is that set in the order the run iterates it.
\<close>

fun embed_lines :: "lib \<Rightarrow> guild_channel \<Rightarrow> guild_channel \<Rightarrow> target list \<Rightarrow> string list" where
  "embed_lines L channel_before channel_after [] = []"
| "embed_lines L channel_before channel_after (overwrite_for # rest) =
     (let before_overwrites = overwrites_for channel_before overwrite_for;
          after_overwrites = overwrites_for channel_after overwrite_for
      in if before_overwrites = after_overwrites
         then embed_lines L channel_before channel_after rest
         else overwrite_header L overwrite_for
              # perm_lines (zip (iter_overwrite L before_overwrites) (iter_overwrite L after_overwrites))
              @ embed_lines L channel_before channel_after rest)"

text \<open>\<open>all_overwrites\<close> enumerates the union of the two snapshots' overwrite keys.\<close>

definition enumerates :: "target list \<Rightarrow> guild_channel \<Rightarrow> guild_channel \<Rightarrow> bool" where
  "enumerates all_overwrites channel_before channel_after \<longleftrightarrow>
     distinct all_overwrites \<and>
     set all_overwrites = dom (overwrites channel_before) \<union> dom (overwrites channel_after)"

text \<open>\<open>channel_type\<close> is assigned in an \<open>if\<close>/\<open>elif\<close> chain with no \<open>else\<close>: \<open>None\<close> is "unbound".\<close>

definition channel_type :: "guild_channel \<Rightarrow> string option" where
  "channel_type channel_before =
     (if cls channel_before = TextChannel then Some ''Text channel''
      else if cls channel_before = VoiceChannel then Some ''Voice channel''
      else if cls channel_before = CategoryChannel then Some ''Category channel''
      else None)"

definition channel_permissions_diff_embed ::
  "lib \<Rightarrow> target list \<Rightarrow> guild_channel \<Rightarrow> guild_channel \<Rightarrow> error + embed option" where
  "channel_permissions_diff_embed L all_overwrites channel_before channel_after =
     (let ls = embed_lines L channel_before channel_after all_overwrites
      in if length ls = 0 then Inr None
         else let embed_text = mention channel_after @ '' permissions have been updated.''
                     @ newline @ newline @ join newline ls
              in case channel_type channel_before of
                   None \<Rightarrow> Inl UnboundLocalError
                 | Some ct \<Rightarrow>
                     Inr (Some \<lparr>title = Some (ct @ '' permissions updated''),
                                description = Some embed_text,
                                color = dark_blue, embed_fields = [],
                                timestamp = None, thumbnail = None\<rparr>))"

subsection \<open>The field diff\<close>

text \<open>
  \<open>getattr(channel, parameter_name)\<close> for the attribute names the handler reads.
\<close>

definition getattr :: "guild_channel \<Rightarrow> string \<Rightarrow> error + pyvalue" where
  "getattr ch k =
     (if k = ''name'' then Inr (PStr (name ch))
      else if k = ''topic'' then Inr (case topic ch of None \<Rightarrow> PNone | Some s \<Rightarrow> PStr s)
      else if k = ''is_nsfw'' then Inr (PMethod ch)
      else if k = ''slowmode_delay'' then Inr (PInt (slowmode_delay ch))
      else if k = ''category'' then
        Inr (case category ch of None \<Rightarrow> PNone | Some (i, n) \<Rightarrow> PCategory i n)
      else if k = ''bitrate'' then Inr (PInt (bitrate ch))
      else if k = ''user_limit'' then Inr (PInt (user_limit ch))
      else Inl AttributeError)"

text \<open>
  A value of \<open>check_params\<close>: a label, or a tuple of a callable and a label.
\<close>

datatype check_param = Label string | Func "pyvalue \<Rightarrow> error + pyvalue" string

definition label_of :: "check_param \<Rightarrow> string" where
  "label_of p = (case p of Label l \<Rightarrow> l | Func f l \<Rightarrow> l)"

text \<open>The three callables of the source.\<close>

definition call_is_nsfw :: "pyvalue \<Rightarrow> error + pyvalue" where
  "call_is_nsfw is_nsfw_func =
     (case is_nsfw_func of PMethod c \<Rightarrow> Inr (PBool (nsfw c)) | _ \<Rightarrow> Inl TypeError)"

definition slowmode_readable :: "lib \<Rightarrow> pyvalue \<Rightarrow> error + pyvalue" where
  "slowmode_readable L time =
     (case time of
        PInt t \<Rightarrow> Inr (if t \<noteq> 0 then PStr (stringify_duration L t) else PNone)
      | _ \<Rightarrow> Inl TypeError)"

definition readable_bitrate :: "lib \<Rightarrow> pyvalue \<Rightarrow> error + pyvalue" where
  "readable_bitrate L bps =
     (case bps of
        PInt b \<Rightarrow> Inr (PStr (show_int (round_kbps L b) @ ''kbps''))
      | _ \<Rightarrow> Inl TypeError)"

definition text_check_params :: "lib \<Rightarrow> (string \<times> check_param) list" where
  "text_check_params L =
     [(''name'', Label ''Name''),
      (''topic'', Label ''Topic''),
      (''is_nsfw'', Func call_is_nsfw ''NSFW''),
      (''slowmode_delay'', Func (slowmode_readable L) ''Slowmode delay''),
      (''category'', Label ''Category'')]"

definition voice_check_params :: "lib \<Rightarrow> (string \<times> check_param) list" where
  "voice_check_params L =
     [(''name'', Label ''Name''),
      (''bitrate'', Func (readable_bitrate L) ''Bitrate''),
      (''user_limit'', Label ''User limit''),
      (''category'', Label ''Category'')]"

definition category_check_params :: "(string \<times> check_param) list" where
  "category_check_params =
     [(''name'', Label ''Name''),
      (''is_nsfw'', Label ''NSFW'')]"

text \<open>
  One round of the loop up to the comparison: the two attributes, passed through the
  callable when the value is a tuple.
\<close>

definition read_param ::
  "guild_channel \<Rightarrow> guild_channel \<Rightarrow> string \<Rightarrow> check_param \<Rightarrow> error + (pyvalue \<times> pyvalue)" where
  "read_param channel_before channel_after parameter_name v =
     ebind (getattr channel_before parameter_name) (\<lambda>before_param.
     ebind (getattr channel_after parameter_name) (\<lambda>after_param.
       case v of
         Label l \<Rightarrow> Inr (before_param, after_param)
       | Func func l \<Rightarrow>
           ebind (func before_param) (\<lambda>b. ebind (func after_param) (\<lambda>a. Inr (b, a)))))"

definition field_line :: "string \<Rightarrow> pyvalue \<Rightarrow> string" where
  "field_line l x = ''**'' @ l @ '':** '' @ py_str x"

text \<open>
  The loop over \<open>check_params.items()\<close> (a dict iterates in the order it was written): the
  result is \<open>(field_before_text, field_after_text)\<close>.
\<close>

fun field_texts ::
  "guild_channel \<Rightarrow> guild_channel \<Rightarrow> (string \<times> check_param) list
     \<Rightarrow> error + (string list \<times> string list)" where
  "field_texts channel_before channel_after [] = Inr ([], [])"
| "field_texts channel_before channel_after ((parameter_name, v) # rest) =
     ebind (read_param channel_before channel_after parameter_name v) (\<lambda>(before_param, after_param).
     ebind (field_texts channel_before channel_after rest) (\<lambda>(bs, as).
       if \<not> py_eq before_param after_param
       then Inr (field_line (label_of v) before_param # bs, field_line (label_of v) after_param # as)
       else Inr (bs, as)))"

definition specific_channel_update_embed ::
  "guild_channel \<Rightarrow> guild_channel \<Rightarrow> string \<Rightarrow> (string \<times> check_param) list
     \<Rightarrow> error + embed option" where
  "specific_channel_update_embed channel_before channel_after ttl check_params =
     ebind (field_texts channel_before channel_after check_params)
       (\<lambda>(field_before_text, field_after_text).
          if length field_after_text = 0 then Inr None
          else Inr (Some \<lparr>title = Some ttl,
                           description = Some (''**Channel:** '' @ mention channel_after),
                           color = dark_blue,
                           embed_fields = [(''Before'', join newline field_before_text, True),
                                           (''After'', join newline field_after_text, True)],
                           timestamp = None, thumbnail = None\<rparr>))"

text \<open>
  \<open>make_channel_update_embed\<close>; \<open>now\<close> is what \<open>datetime.datetime.now()\<close> returns.
\<close>

definition make_channel_update_embed ::
  "lib \<Rightarrow> nat \<Rightarrow> target list \<Rightarrow> guild_channel \<Rightarrow> guild_channel \<Rightarrow> error + embed option" where
  "make_channel_update_embed L now all_overwrites channel_before channel_after =
     ebind (if overwrites channel_before \<noteq> overwrites channel_after
            then channel_permissions_diff_embed L all_overwrites channel_before channel_after
            else Inr None) (\<lambda>e0.
     ebind (if cls channel_before = TextChannel \<and> e0 = None
            then specific_channel_update_embed channel_before channel_after
                   ''Text Channel updated'' (text_check_params L)
            else Inr e0) (\<lambda>e1.
     ebind (if cls channel_before = VoiceChannel \<and> e1 = None
            then specific_channel_update_embed channel_before channel_after
                   ''Voice Channel updated'' (voice_check_params L)
            else Inr e1) (\<lambda>e2.
     ebind (if cls channel_before = CategoryChannel \<and> e2 = None
            then specific_channel_update_embed channel_before channel_after
                   ''Category Channel updated'' category_check_params
            else Inr e2) (\<lambda>e3.
       Inr (map_option (\<lambda>e. e\<lparr>timestamp := Some now\<rparr>) e3)))))"

section \<open>Sending a log message\<close>

text \<open>
  A channel of the guild's channel list, as far as \<open>send_log\<close> uses it: its id, and whether
  the platform accepts a message sent to it (\<open>Channel.send\<close> raises otherwise).
\<close>

record log_channel =
  channel_id :: int
  accepts :: bool

record guild =
  guild_id :: nat
  channels :: "int \<rightharpoonup> log_channel"

text \<open>
  Modelled from the spec: \<open>LogChannels.get_log_channel\<close> (\<open>bot.database.log_channels\<close>) is the
  store lookup \<open>getLogChannel(store, category, guild) -> ChannelId | absent\<close>.  It is an
  argument of the model: given the log category and the guild it answers a channel id, or
  \<open>None\<close> when nothing is configured.
\<close>

type_synonym store = "string \<Rightarrow> nat \<Rightarrow> int option"

text \<open>\<open>int(x)\<close> of what the store answered: \<open>int(None)\<close> raises \<open>TypeError\<close>.\<close>

definition py_int :: "int option \<Rightarrow> error + int" where
  "py_int x = (case x of None \<Rightarrow> Inl TypeError | Some n \<Rightarrow> Inr n)"

text \<open>\<open>guild.get_channel(x)\<close>: a lookup of \<open>x\<close> in the guild's channels; \<open>None\<close> is no key of it.\<close>

definition get_channel :: "guild \<Rightarrow> int option \<Rightarrow> log_channel option" where
  "get_channel g x = (case x of None \<Rightarrow> None | Some n \<Rightarrow> channels g n)"

text \<open>
  \<open>channel.send(...)\<close>: the messages sent so far are a list of (channel id, payload), the
  state that \<open>send_log\<close> changes.
\<close>

definition send :: "log_channel \<Rightarrow> 'p \<Rightarrow> (int \<times> 'p) list \<Rightarrow> error + (int \<times> 'p) list" where
  "send c payload out = (if accepts c then Inr (out @ [(channel_id c, payload)]) else Inl Forbidden)"

text \<open>\<open>ServerLog.send_log\<close> (server_log.py).\<close>

definition ServerLog_send_log ::
  "store \<Rightarrow> guild \<Rightarrow> 'p \<Rightarrow> (int \<times> 'p) list \<Rightarrow> error + (bool \<times> (int \<times> 'p) list)" where
  "ServerLog_send_log get_log_channel g payload out =
     (let server_log_id = get_log_channel ''server_log'' (guild_id g)
      in ebind (py_int server_log_id) (\<lambda>i.
           case get_channel g (Some i) of
             None \<Rightarrow> Inr (False, out)
           | Some server_log_channel \<Rightarrow>
               ebind (send server_log_channel payload out) (\<lambda>out'. Inr (True, out'))))"

text \<open>\<open>MessageLog.send_log\<close> (voice_log.py): the id goes to \<open>get_channel\<close> as the store gave it.\<close>

definition MessageLog_send_log ::
  "store \<Rightarrow> guild \<Rightarrow> 'p \<Rightarrow> (int \<times> 'p) list \<Rightarrow> error + (bool \<times> (int \<times> 'p) list)" where
  "MessageLog_send_log get_log_channel g payload out =
     (let mod_log_id = get_log_channel ''voice_log'' (guild_id g)
      in case get_channel g mod_log_id of
           None \<Rightarrow> Inr (False, out)
         | Some mod_log_channel \<Rightarrow>
             ebind (send mod_log_channel payload out) (\<lambda>out'. Inr (True, out')))"

text \<open>\<open>ServerLog.on_guild_channel_update\<close>; \<open>g\<close> is \<open>channel_after.guild\<close>.\<close>

definition on_guild_channel_update ::
  "store \<Rightarrow> lib \<Rightarrow> nat \<Rightarrow> target list \<Rightarrow> guild \<Rightarrow> guild_channel \<Rightarrow> guild_channel
     \<Rightarrow> (int \<times> embed) list \<Rightarrow> error + (int \<times> embed) list" where
  "on_guild_channel_update get_log_channel L now all_overwrites g channel_before channel_after out =
     ebind (make_channel_update_embed L now all_overwrites channel_before channel_after) (\<lambda>e.
       case e of
         None \<Rightarrow> Inr out
       | Some em \<Rightarrow> ebind (ServerLog_send_log get_log_channel g em out) (\<lambda>(ok, out'). Inr out'))"

section \<open>The voice log\<close>

text \<open>A voice state; its channel is absent or a voice channel (id and name).\<close>

record voice_state =
  afk :: bool
  channel :: "(nat \<times> string) option"
  deaf :: bool
  mute :: bool

record member =
  member_mention :: string
  avatar_url :: string
  member_guild :: guild

text \<open>\<open>before.channel != after.channel\<close>: channels are equal when their ids are.\<close>

fun channel_ne :: "(nat \<times> string) option \<Rightarrow> (nat \<times> string) option \<Rightarrow> bool" where
  "channel_ne None None = False"
| "channel_ne (Some (i, m)) (Some (j, n)) = (i \<noteq> j)"
| "channel_ne x y = True"

text \<open>\<open>str(state.channel)\<close>: a channel prints its name.\<close>

definition channel_str :: "(nat \<times> string) option \<Rightarrow> string" where
  "channel_str c = (case c of None \<Rightarrow> ''None'' | Some (i, n) \<Rightarrow> n)"

text \<open>
  The \<open>if\<close>/\<open>elif\<close> chain of \<open>on_voice_state_update\<close>; \<open>None\<close> is the early return of its
  \<open>else\<close>.  In the second branch the conditional expression ends the \<open>description\<close> argument:
  the three adjacent f-strings are one operand, so the \<open>else\<close> replaces all of them.
\<close>

definition voice_embed :: "member \<Rightarrow> voice_state \<Rightarrow> voice_state \<Rightarrow> embed option" where
  "voice_embed m before after =
     (if afk before \<noteq> afk after then
        Some \<lparr>title = Some (if afk after then ''User went AFK'' else ''User is no longer AFK''),
              description = Some (''**User:** '' @ member_mention m),
              color = blue, embed_fields = [], timestamp = None, thumbnail = None\<rparr>
      else if channel_ne (channel before) (channel after) then
        Some \<lparr>title = Some (if channel after \<noteq> None then ''User changed channels''
                             else ''User left voice channel''),
              description = Some (if channel after \<noteq> None
                                  then ''**User:** '' @ member_mention m
                                       @ newline @ ''**Channel:** '' @ channel_str (channel before)
                                       @ newline @ ''**New Channel:** '' @ channel_str (channel after)
                                  else []),
              color = blue, embed_fields = [], timestamp = None, thumbnail = None\<rparr>
      else if deaf before \<noteq> deaf after then
        Some \<lparr>title = Some (if deaf after then ''User deafened'' else ''User undeafened''),
              description = Some (''**User:** '' @ member_mention m),
              color = dark_orange, embed_fields = [], timestamp = None, thumbnail = None\<rparr>
      else if mute before \<noteq> mute after then
        Some \<lparr>title = Some (if mute after then ''User silenced'' else ''User unsilenced''),
              description = Some (''**User:** '' @ member_mention m),
              color = dark_orange, embed_fields = [], timestamp = None, thumbnail = None\<rparr>
      else None)"

definition on_voice_state_update ::
  "store \<Rightarrow> member \<Rightarrow> voice_state \<Rightarrow> voice_state \<Rightarrow> (int \<times> embed) list
     \<Rightarrow> error + (int \<times> embed) list" where
  "on_voice_state_update get_log_channel m before after out =
     (case voice_embed m before after of
        None \<Rightarrow> Inr out
      | Some e \<Rightarrow>
          ebind (MessageLog_send_log get_log_channel (member_guild m)
                   (e\<lparr>thumbnail := Some (avatar_url m)\<rparr>) out) (\<lambda>(ok, out'). Inr out'))"

section \<open>The sudo commands\<close>

datatype message = Content string | EmbedMessage embed

text \<open>
  The bot and what the commands do to the world: whether the bot was closed, the loaded
  extensions, the reactions added to the invoking message, the messages sent to the
  invoking channel, the shell commands run.
\<close>

record bot =
  closed :: bool
  extension_list :: "string list"
  extensions :: "string list"
  reactions :: "string list"
  sent :: "message list"
  shell :: "string list"

text \<open>
  \<open>devs\<close> is \<open>config.devs\<close>; \<open>format_exc\<close> is \<open>traceback.format_exc()\<close> of the exception being
  handled; \<open>stats_embed\<close> is the embed that \<open>stats\<close> builds from the platform, the library
  version and the bot's counters; \<open>load_extension\<close> and \<open>unload_extension\<close> are the methods
  of discord.py's bot, which return the bot with the extension loaded or unloaded, or
  raise.
\<close>

record sudo_env =
  devs :: "nat list"
  format_exc :: "error \<Rightarrow> string"
  stats_embed :: embed
  load_extension :: "bot \<Rightarrow> string \<Rightarrow> error + bot"
  unload_extension :: "bot \<Rightarrow> string \<Rightarrow> error + bot"

record Context =
  author_id :: nat

definition squared_ok :: string where
  "squared_ok = [CHR 0xF0, CHR 0x9F, CHR 0x86, CHR 0x97]"

definition ctx_send :: "message \<Rightarrow> bot \<Rightarrow> bot" where
  "ctx_send m b = b\<lparr>sent := sent b @ [m]\<rparr>"

definition sudo_shutdown :: "sudo_env \<Rightarrow> Context \<Rightarrow> bot \<Rightarrow> bot" where
  "sudo_shutdown E ctx b =
     (if author_id ctx \<in> set (devs E)
      then b\<lparr>reactions := reactions b @ [check_mark], closed := True\<rparr>
      else b)"

definition sudo_restart :: "sudo_env \<Rightarrow> Context \<Rightarrow> bot \<Rightarrow> bot" where
  "sudo_restart E ctx b =
     (if author_id ctx \<in> set (devs E)
      then b\<lparr>reactions := reactions b @ [check_mark], closed := True,
              shell := shell b @ [''pipenv run start'']\<rparr>
      else b)"

text \<open>\<open>if not extension: ... else: ...\<close>: \<open>None\<close> and the empty string are false.\<close>

definition extension_arg :: "bot \<Rightarrow> string option \<Rightarrow> string list" where
  "extension_arg b extension =
     (case extension of
        None \<Rightarrow> extension_list b
      | Some e \<Rightarrow> if e = [] then extension_list b else [''bot.cogs.'' @ e])"

definition traceback_message :: "sudo_env \<Rightarrow> error \<Rightarrow> message" where
  "traceback_message E e = Content (''```py'' @ newline @ format_exc E e @ newline @ ''```'')"

text \<open>
  The \<open>try\<close>/\<open>except DiscordException\<close>/\<open>else\<close> of the three loops.  The result is the bot
  and the exception that left the \<open>try\<close>, if any: a \<open>DiscordException\<close> is caught and its
  traceback sent, any other exception ends the command.
\<close>

definition report :: "sudo_env \<Rightarrow> bot \<Rightarrow> error + bot \<Rightarrow> bot \<times> error option" where
  "report E b r =
     (case r of
        Inl e \<Rightarrow> if DiscordException e then (ctx_send (traceback_message E e) b, None)
                 else (b, Some e)
      | Inr b' \<Rightarrow> (ctx_send (Content squared_ok) b', None))"

fun load_loop :: "sudo_env \<Rightarrow> string list \<Rightarrow> bot \<Rightarrow> bot \<times> error option" where
  "load_loop E [] b = (b, None)"
| "load_loop E (ext # rest) b =
     (case report E b (load_extension E b ext) of
        (b', None) \<Rightarrow> load_loop E rest b'
      | (b', Some e) \<Rightarrow> (b', Some e))"

text \<open>
  In \<open>reload\<close> the extension stays unloaded when unloading succeeded and loading raised.
\<close>

definition reload_one :: "sudo_env \<Rightarrow> bot \<Rightarrow> string \<Rightarrow> bot \<times> error option" where
  "reload_one E b ext =
     (case unload_extension E b ext of
        Inl e \<Rightarrow> report E b (Inl e)
      | Inr b1 \<Rightarrow> report E b1 (load_extension E b1 ext))"

fun reload_loop :: "sudo_env \<Rightarrow> string list \<Rightarrow> bot \<Rightarrow> bot \<times> error option" where
  "reload_loop E [] b = (b, None)"
| "reload_loop E (ext # rest) b =
     (case reload_one E b ext of
        (b', None) \<Rightarrow> reload_loop E rest b'
      | (b', Some e) \<Rightarrow> (b', Some e))"

fun unload_loop :: "sudo_env \<Rightarrow> string list \<Rightarrow> bot \<Rightarrow> bot \<times> error option" where
  "unload_loop E [] b = (b, None)"
| "unload_loop E (ext # rest) b =
     (case report E b (unload_extension E b ext) of
        (b', None) \<Rightarrow> unload_loop E rest b'
      | (b', Some e) \<Rightarrow> (b', Some e))"

definition sudo_load ::
  "sudo_env \<Rightarrow> Context \<Rightarrow> string option \<Rightarrow> bot \<Rightarrow> bot \<times> error option" where
  "sudo_load E ctx extension b = load_loop E (extension_arg b extension) b"

definition sudo_reload ::
  "sudo_env \<Rightarrow> Context \<Rightarrow> string option \<Rightarrow> bot \<Rightarrow> bot \<times> error option" where
  "sudo_reload E ctx extension b = reload_loop E (extension_arg b extension) b"

definition sudo_unload ::
  "sudo_env \<Rightarrow> Context \<Rightarrow> string option \<Rightarrow> bot \<Rightarrow> bot \<times> error option" where
  "sudo_unload E ctx extension b = unload_loop E (extension_arg b extension) b"

definition sudo_stats :: "sudo_env \<Rightarrow> Context \<Rightarrow> bot \<Rightarrow> bot" where
  "sudo_stats E ctx b = ctx_send (EmbedMessage (stats_embed E)) b"

definition owner_only_embed :: embed where
  "owner_only_embed =
     \<lparr>title = None,
      description = Some ''This is an Owner-only command, you cannot invoke this.'',
      color = red, embed_fields = [], timestamp = None, thumbnail = None\<rparr>"

text \<open>\<open>Sudo.cog_check\<close>: \<open>True\<close> for a dev; otherwise it sends the embed and returns \<open>None\<close>.\<close>

definition cog_check :: "sudo_env \<Rightarrow> Context \<Rightarrow> bot \<Rightarrow> bool \<times> bot" where
  "cog_check E ctx b =
     (if author_id ctx \<in> set (devs E) then (True, b)
      else (False, ctx_send (EmbedMessage owner_only_embed) b))"

datatype sudo_command =
    Shutdown
  | Restart
  | Load "string option"
  | Reload "string option"
  | Unload "string option"
  | Stats

definition callback ::
  "sudo_env \<Rightarrow> sudo_command \<Rightarrow> Context \<Rightarrow> bot \<Rightarrow> bot \<times> error option" where
  "callback E cmd ctx b =
     (case cmd of
        Shutdown \<Rightarrow> (sudo_shutdown E ctx b, None)
      | Restart \<Rightarrow> (sudo_restart E ctx b, None)
      | Load x \<Rightarrow> sudo_load E ctx x b
      | Reload x \<Rightarrow> sudo_reload E ctx x b
      | Unload x \<Rightarrow> sudo_unload E ctx x b
      | Stats \<Rightarrow> (sudo_stats E ctx b, None))"

text \<open>
  How discord.py invokes a command of a cog: it awaits the cog's \<open>cog_check\<close> and runs the
  command's callback only when the check returned a true value; otherwise it raises
  \<open>CheckFailure\<close> and the callback is not run.
\<close>

definition invoke :: "sudo_env \<Rightarrow> sudo_command \<Rightarrow> Context \<Rightarrow> bot \<Rightarrow> bot \<times> error option" where
  "invoke E cmd ctx b =
     (case cog_check E ctx b of
        (True, b1) \<Rightarrow> callback E cmd ctx b1
      | (False, b1) \<Rightarrow> (b1, Some CheckFailure))"

section \<open>The declared fields of a class\<close>

text \<open>
  The \<open>check_params\<close> that \<open>make_channel_update_embed\<close> passes for the class of
  \<open>channel_before\<close>; for any other class no field is compared.
\<close>

definition declared_fields :: "lib \<Rightarrow> channel_class \<Rightarrow> (string \<times> check_param) list" where
  "declared_fields L c =
     (case c of
        TextChannel \<Rightarrow> text_check_params L
      | VoiceChannel \<Rightarrow> voice_check_params L
      | CategoryChannel \<Rightarrow> category_check_params
      | OtherChannel \<Rightarrow> [])"

definition declared_labels :: "lib \<Rightarrow> channel_class \<Rightarrow> string list" where
  "declared_labels L c = map (\<lambda>(k, p). label_of p) (declared_fields L c)"

text \<open>The title passed with the \<open>check_params\<close> of a class.\<close>

definition class_title :: "channel_class \<Rightarrow> string" where
  "class_title c =
     (case c of
        TextChannel \<Rightarrow> ''Text Channel updated''
      | VoiceChannel \<Rightarrow> ''Voice Channel updated''
      | CategoryChannel \<Rightarrow> ''Category Channel updated''
      | OtherChannel \<Rightarrow> [])"

text \<open>What \<open>str()\<close> prints for the topic of a text channel.\<close>

definition topic_str :: "string option \<Rightarrow> string" where
  "topic_str t = (case t of None \<Rightarrow> ''None'' | Some s \<Rightarrow> s)"

text \<open>A line of the Before or After column carries the label \<open>l\<close>.\<close>

definition labelled :: "string \<Rightarrow> string \<Rightarrow> bool" where
  "labelled l s \<longleftrightarrow> prefix (''**'' @ l @ '':** '') s"

section \<open>Concrete snapshots\<close>

definition example_lib :: lib where
  "example_lib =
     \<lparr>PURE_FLAGS = [''read_messages'', ''send_messages'', ''manage_messages''],
      stringify_duration = (\<lambda>s. show_int s @ ''s''),
      target_mention = (\<lambda>t. case t of Role n \<Rightarrow> ''<@&'' @ show_nat n @ ''>''
                                   | Member n \<Rightarrow> ''<@'' @ show_nat n @ ''>''),
      round_kbps = (\<lambda>bps. round_half_even bps 1000)\<rparr>"

text \<open>A text channel with no overwrites.\<close>

definition general :: guild_channel where
  "general =
     \<lparr>cls = TextChannel, obj = 1, repr = ''<TextChannel id=10>'', mention = ''<#10>'',
      name = ''general'', topic = Some ''old'', nsfw = False, slowmode_delay = 0,
      bitrate = 0, user_limit = 0, category = None, overwrites = Map.empty\<rparr>"

text \<open>The same channel renamed, with an empty overwrite added for role 1.\<close>

definition renamed_with_empty_overwrite :: guild_channel where
  "renamed_with_empty_overwrite =
     general\<lparr>obj := 2, name := ''lobby'', overwrites := [Role 1 \<mapsto> Map.empty]\<rparr>"

text \<open>
  Role 1 may read; role 2 may not send and then may: a text channel and a channel of
  another class.
\<close>

definition muted :: guild_channel where
  "muted =
     general\<lparr>overwrites := [Role 1 \<mapsto> [''read_messages'' \<mapsto> True],
                              Role 2 \<mapsto> [''send_messages'' \<mapsto> False]]\<rparr>"

definition unmuted :: guild_channel where
  "unmuted =
     general\<lparr>obj := 2,
             overwrites := [Role 1 \<mapsto> [''read_messages'' \<mapsto> True],
                            Role 2 \<mapsto> [''send_messages'' \<mapsto> True]]\<rparr>"

definition store_muted :: guild_channel where
  "store_muted = muted\<lparr>cls := OtherChannel\<rparr>"

definition store_unmuted :: guild_channel where
  "store_unmuted = unmuted\<lparr>cls := OtherChannel\<rparr>"

text \<open>The text channel after its topic, or its name and topic, changed.\<close>

definition retopiced :: guild_channel where
  "retopiced = general\<lparr>obj := 2, topic := Some ''new''\<rparr>"

definition renamed_retopiced :: guild_channel where
  "renamed_retopiced = general\<lparr>obj := 2, name := ''lobby'', topic := Some ''new''\<rparr>"

text \<open>A second snapshot object of the channel with nothing changed.\<close>

definition general_copy :: guild_channel where
  "general_copy = general\<lparr>obj := 2\<rparr>"

text \<open>Two snapshot objects of a category channel with the same data.\<close>

definition staff :: guild_channel where
  "staff =
     \<lparr>cls = CategoryChannel, obj = 3, repr = ''<CategoryChannel id=20>'', mention = ''<#20>'',
      name = ''Staff'', topic = None, nsfw = False, slowmode_delay = 0,
      bitrate = 0, user_limit = 0, category = None, overwrites = Map.empty\<rparr>"

definition staff_copy :: guild_channel where
  "staff_copy = staff\<lparr>obj := 4\<rparr>"

text \<open>
  A guild whose only channel has id 5; a store that answers nothing, and stores that
  answer the id 7 for one log category only.
\<close>

definition example_guild :: guild where
  "example_guild = \<lparr>guild_id = 1, channels = [5 \<mapsto> \<lparr>channel_id = 5, accepts = True\<rparr>]\<rparr>"

definition empty_store :: store where
  "empty_store c g = None"

definition server_stale_store :: store where
  "server_stale_store c g = (if c = ''server_log'' then Some 7 else None)"

definition voice_stale_store :: store where
  "voice_stale_store c g = (if c = ''voice_log'' then Some 7 else None)"

text \<open>A member who leaves voice channel 3, and the environment of the sudo commands.\<close>

definition example_member :: member where
  "example_member =
     \<lparr>member_mention = ''<@42>'', avatar_url = ''https://cdn/42.png'',
      member_guild = example_guild\<rparr>"

definition in_voice :: voice_state where
  "in_voice = \<lparr>afk = False, channel = Some (3, ''Lounge''), deaf = False, mute = False\<rparr>"

definition left_voice :: voice_state where
  "left_voice = \<lparr>afk = False, channel = None, deaf = False, mute = False\<rparr>"

definition example_env :: sudo_env where
  "example_env =
     \<lparr>devs = [100, 101], format_exc = (\<lambda>e. ''Traceback''), stats_embed = owner_only_embed,
      load_extension = (\<lambda>b ext. Inl ExtensionNotFound),
      unload_extension = (\<lambda>b ext. Inl ExtensionNotLoaded)\<rparr>"

definition example_bot :: bot where
  "example_bot =
     \<lparr>closed = False, extension_list = [''bot.cogs.sudo''], extensions = [''bot.cogs.sudo''],
      reactions = [], sent = [], shell = []\<rparr>"

definition stranger :: Context where
  "stranger = \<lparr>author_id = 7\<rparr>"

section \<open>Facts about the Python values\<close>

lemma py_eq_refl: "py_eq x x"
  by (cases x) simp_all

lemma py_eq_topic:
  "py_eq (case x of None \<Rightarrow> PNone | Some s \<Rightarrow> PStr s) (case y of None \<Rightarrow> PNone | Some s \<Rightarrow> PStr s)
     = (x = y)"
  by (cases x; cases y) simp_all

lemma py_eq_category:
  "py_eq (case x of None \<Rightarrow> PNone | Some (i, n) \<Rightarrow> PCategory i n)
         (case y of None \<Rightarrow> PNone | Some (i, n) \<Rightarrow> PCategory i n)
     = (map_option fst x = map_option fst y)"
  by (cases x; cases y) auto

lemma py_str_topic: "py_str (case x of None \<Rightarrow> PNone | Some s \<Rightarrow> PStr s) = topic_str x"
  by (cases x) (simp_all add: topic_str_def)

lemma capitalize_send_messages:
  "capitalize (replace_underscores ''send_messages'') = ''Send messages''"
  by code_simp

lemma show_nat_digits: "show_nat 1 = ''1''" "show_nat 2 = ''2''"
  by code_simp+

lemma labelled_field_line: "labelled l (field_line l x)"
  by (simp add: labelled_def field_line_def)

section \<open>The shape of \<open>make_channel_update_embed\<close>\<close>

text \<open>
  The four \<open>if\<close> statements of \<open>make_channel_update_embed\<close> as one choice: the permission
  embed when there is one, otherwise the field diff of the class of \<open>channel_before\<close>.
\<close>

lemma make_unfold:
  "make_channel_update_embed L now all_overwrites b a =
     ebind (if overwrites b \<noteq> overwrites a
            then channel_permissions_diff_embed L all_overwrites b a else Inr None) (\<lambda>e0.
       case e0 of
         Some pe \<Rightarrow> Inr (Some (pe\<lparr>timestamp := Some now\<rparr>))
       | None \<Rightarrow>
           if cls b = OtherChannel then Inr None
           else ebind (specific_channel_update_embed b a (class_title (cls b))
                         (declared_fields L (cls b)))
                  (\<lambda>e. Inr (map_option (\<lambda>e. e\<lparr>timestamp := Some now\<rparr>) e)))"
  by (cases "cls b")
     (auto simp: make_channel_update_embed_def ebind_def class_title_def declared_fields_def
        split: sum.splits option.splits)

section \<open>The permission diff\<close>

lemma embed_lines_unchanged:
  assumes "\<forall>t \<in> set ts. overwrites_for b t = overwrites_for a t"
  shows "embed_lines L b a ts = []"
  using assms by (induction ts) simp_all

lemma embed_lines_changed:
  assumes "t \<in> set ts" and "overwrites_for b t \<noteq> overwrites_for a t"
  shows "embed_lines L b a ts \<noteq> []"
  using assms by (induction ts) (auto simp: Let_def)

lemma overwrites_for_differ:
  assumes "overwrites_for b t \<noteq> overwrites_for a t"
  shows "overwrites b \<noteq> overwrites a" and "t \<in> dom (overwrites b) \<union> dom (overwrites a)"
  using assms by (auto simp: overwrites_for_def split: option.splits)

lemma channel_type_known:
  assumes "cls b \<noteq> OtherChannel"
  shows "channel_type b = Some (case cls b of TextChannel \<Rightarrow> ''Text channel''
           | VoiceChannel \<Rightarrow> ''Voice channel'' | _ \<Rightarrow> ''Category channel'')"
  using assms by (cases "cls b") (simp_all add: channel_type_def)

lemma permissions_embed_changed:
  assumes "embed_lines L b a all_overwrites \<noteq> []" and "channel_type b = Some ct"
  shows "channel_permissions_diff_embed L all_overwrites b a =
           Inr (Some \<lparr>title = Some (ct @ '' permissions updated''),
                      description = Some (mention a @ '' permissions have been updated.''
                        @ newline @ newline @ join newline (embed_lines L b a all_overwrites)),
                      color = dark_blue, embed_fields = [], timestamp = None, thumbnail = None\<rparr>)"
  using assms by (simp add: channel_permissions_diff_embed_def)

lemma permissions_embed_unchanged:
  assumes "embed_lines L b a all_overwrites = []"
  shows "channel_permissions_diff_embed L all_overwrites b a = Inr None"
  using assms by (simp add: channel_permissions_diff_embed_def)

lemma permissions_embed_unbound:
  assumes "embed_lines L b a all_overwrites \<noteq> []" and "cls b = OtherChannel"
  shows "channel_permissions_diff_embed L all_overwrites b a = Inl UnboundLocalError"
  using assms by (simp add: channel_permissions_diff_embed_def channel_type_def)

lemma permissions_embed_no_fields:
  assumes "channel_permissions_diff_embed L all_overwrites b a = Inr (Some e)"
  shows "embed_fields e = []"
  using assms
  by (auto simp: channel_permissions_diff_embed_def Let_def split: if_splits option.splits)

lemma field_texts_overwrites_irrelevant:
  "field_texts (b\<lparr>overwrites := ov\<rparr>) a (declared_fields L c) = field_texts b a (declared_fields L c)"
  by (cases c)
     (simp_all add: declared_fields_def text_check_params_def voice_check_params_def
        category_check_params_def read_param_def getattr_def ebind_def call_is_nsfw_def
        slowmode_readable_def readable_bitrate_def field_line_def)

lemma make_overwrites_unchanged:
  assumes "\<forall>t. overwrites_for b t = overwrites_for a t"
  shows "make_channel_update_embed L now all_overwrites b a =
         make_channel_update_embed L now all_overwrites (b\<lparr>overwrites := overwrites a\<rparr>) a"
proof -
  from assms have "embed_lines L b a all_overwrites = []"
    by (intro embed_lines_unchanged) simp
  then have "channel_permissions_diff_embed L all_overwrites b a = Inr None"
    by (rule permissions_embed_unchanged)
  then show ?thesis
    using field_texts_overwrites_irrelevant [where b = b and ov = "overwrites a" and a = a and L = L
            and c = "cls b"]
    by (simp add: make_unfold ebind_def specific_channel_update_embed_def)
qed

lemma make_permissions_changed:
  assumes "t \<in> set all_overwrites" and "overwrites_for b t \<noteq> overwrites_for a t"
      and "channel_type b = Some ct"
  shows "make_channel_update_embed L now all_overwrites b a =
           Inr (Some \<lparr>title = Some (ct @ '' permissions updated''),
                      description = Some (mention a @ '' permissions have been updated.''
                        @ newline @ newline @ join newline (embed_lines L b a all_overwrites)),
                      color = dark_blue, embed_fields = [], timestamp = Some now,
                      thumbnail = None\<rparr>)"
  using permissions_embed_changed [OF embed_lines_changed [OF assms(1,2)] assms(3), of L]
        overwrites_for_differ(1) [OF assms(2)]
  by (simp add: make_unfold ebind_def)

subsection \<open>One permission of one subject changes\<close>

lemma perm_lines_zip:
  "perm_lines (zip (map (\<lambda>k. (k, bo k)) fs) (map (\<lambda>k. (k, ao k)) fs)) =
     concat (map (\<lambda>k. if bo k \<noteq> ao k then [perm_line (k, bo k) (k, ao k)] else []) fs)"
  by (induction fs) simp_all

lemma concat_single_change:
  assumes "distinct fs" and "s \<in> set fs" and "\<forall>k. k \<noteq> s \<longrightarrow> bo k = ao k" and "bo s \<noteq> ao s"
  shows "concat (map (\<lambda>k. if bo k \<noteq> (ao k :: bool option) then [f k] else []) fs) = [f s]"
  using assms
proof (induction fs)
  case Nil
  then show ?case by simp
next
  case (Cons x fs)
  show ?case
  proof (cases "x = s")
    case True
    with Cons.prems have "s \<notin> set fs" by simp
    with Cons.prems(3) have "concat (map (\<lambda>k. if bo k \<noteq> ao k then [f k] else []) fs) = []"
      by (induction fs) auto
    with True Cons.prems(4) show ?thesis by simp
  next
    case False
    with Cons show ?thesis by auto
  qed
qed

lemma perm_lines_single_change:
  assumes "distinct (PURE_FLAGS L)" and "s \<in> set (PURE_FLAGS L)"
      and "\<forall>k. k \<noteq> s \<longrightarrow> bo k = ao k" and "bo s \<noteq> ao s"
  shows "perm_lines (zip (iter_overwrite L bo) (iter_overwrite L ao)) = [perm_line (s, bo s) (s, ao s)]"
  unfolding iter_overwrite_def perm_lines_zip
  using assms by (rule concat_single_change)

lemma embed_lines_single_target:
  assumes "distinct ts" and "y \<in> set ts"
      and "\<forall>x. x \<noteq> y \<longrightarrow> overwrites_for b x = overwrites_for a x"
      and "overwrites_for b y \<noteq> overwrites_for a y"
  shows "embed_lines L b a ts =
           overwrite_header L y
           # perm_lines (zip (iter_overwrite L (overwrites_for b y)) (iter_overwrite L (overwrites_for a y)))"
  using assms
proof (induction ts)
  case Nil
  then show ?case by simp
next
  case (Cons t ts)
  show ?case
  proof (cases "t = y")
    case True
    with Cons.prems have "\<forall>x \<in> set ts. overwrites_for b x = overwrites_for a x" by auto
    then have "embed_lines L b a ts = []" by (rule embed_lines_unchanged)
    with True Cons.prems(4) show ?thesis by simp
  next
    case False
    with Cons show ?thesis by auto
  qed
qed

lemma send_messages_line:
  "perm_line (''send_messages'', Some False) (''send_messages'', Some True) =
     ''**`Send messages:`** '' @ cross_mark @ '' '' @ arrow @ '' '' @ check_mark"
  by (simp add: perm_line_def capitalize_send_messages)

subsection \<open>The concrete snapshots\<close>

lemma general_overwrites_differ:
  "overwrites general \<noteq> overwrites renamed_with_empty_overwrite"
proof
  assume "overwrites general = overwrites renamed_with_empty_overwrite"
  then have "overwrites general (Role 1) = overwrites renamed_with_empty_overwrite (Role 1)"
    by simp
  then show False
    by (simp add: general_def renamed_with_empty_overwrite_def)
qed

lemma general_enumerates: "enumerates [Role 1] general renamed_with_empty_overwrite"
  by (simp add: enumerates_def general_def renamed_with_empty_overwrite_def)

lemma role2_differs: "overwrites_for muted (Role 2) \<noteq> overwrites_for unmuted (Role 2)"
proof
  assume "overwrites_for muted (Role 2) = overwrites_for unmuted (Role 2)"
  then have "overwrites_for muted (Role 2) ''send_messages''
               = overwrites_for unmuted (Role 2) ''send_messages''"
    by simp
  then show False
    by (simp add: overwrites_for_def muted_def unmuted_def)
qed

lemma muted_enumerates: "enumerates [Role 1, Role 2] muted unmuted"
  by (auto simp: enumerates_def muted_def unmuted_def)

lemma muted_others:
  "\<forall>x. x \<noteq> Role 2 \<longrightarrow> overwrites_for muted x = overwrites_for unmuted x"
  by (simp add: overwrites_for_def muted_def unmuted_def)

lemma muted_lines:
  "embed_lines example_lib muted unmuted [Role 1, Role 2] =
       [''**Overwrite changes for <@&2>:**'',
        ''**`Send messages:`** '' @ cross_mark @ '' '' @ arrow @ '' '' @ check_mark]"
proof -
  have 1: "distinct (PURE_FLAGS example_lib)" "''send_messages'' \<in> set (PURE_FLAGS example_lib)"
    by (simp_all add: example_lib_def)
  have 3: "overwrites_for muted (Role 2) ''send_messages'' = Some False"
          "overwrites_for unmuted (Role 2) ''send_messages'' = Some True"
    by (simp_all add: overwrites_for_def muted_def unmuted_def)
  have 4: "\<forall>k. k \<noteq> ''send_messages'' \<longrightarrow>
             overwrites_for muted (Role 2) k = overwrites_for unmuted (Role 2) k"
    by (simp add: overwrites_for_def muted_def unmuted_def)
  have 5: "target_mention example_lib (Role 2) = ''<@&2>''"
    by (simp add: example_lib_def show_nat_digits)
  have 6: "overwrites_for muted (Role 2) ''send_messages''
             \<noteq> overwrites_for unmuted (Role 2) ''send_messages''"
    using 3 by simp
  have 7: "distinct [Role 1, Role 2]" "Role 2 \<in> set [Role 1, Role 2]" by simp_all
  from embed_lines_single_target [OF 7 muted_others role2_differs, of example_lib]
       perm_lines_single_change [OF 1 4 6] 3 5
  show ?thesis
    by (simp add: send_messages_line overwrite_header_def)
qed

subsection \<open>Permission changes and field changes\<close>

text \<open>
  C1, as the claim states it, fails: the text channel \<open>general\<close> is renamed while an empty
  overwrite for role 1 is added.  The overwrite mappings differ, yet no permission embed is
  produced and the result is the field diff of the name.
\<close>

theorem empty_overwrite_and_rename_gives_field_diff:
  "enumerates [Role 1] general renamed_with_empty_overwrite
   \<and> overwrites general \<noteq> overwrites renamed_with_empty_overwrite
   \<and> make_channel_update_embed example_lib 9 [Role 1] general renamed_with_empty_overwrite =
       Inr (Some \<lparr>title = Some ''Text Channel updated'',
                  description = Some ''**Channel:** <#10>'',
                  color = dark_blue,
                  embed_fields = [(''Before'', ''**Name:** general'', True),
                                  (''After'', ''**Name:** lobby'', True)],
                  timestamp = Some 9, thumbnail = None\<rparr>)"
proof -
  have p: "channel_permissions_diff_embed example_lib [Role 1] general renamed_with_empty_overwrite
             = Inr None"
    by (simp add: channel_permissions_diff_embed_def overwrites_for_def general_def
        renamed_with_empty_overwrite_def)
  have f: "specific_channel_update_embed general renamed_with_empty_overwrite
             ''Text Channel updated'' (text_check_params example_lib) =
           Inr (Some \<lparr>title = Some ''Text Channel updated'',
                  description = Some ''**Channel:** <#10>'',
                  color = dark_blue,
                  embed_fields = [(''Before'', ''**Name:** general'', True),
                                  (''After'', ''**Name:** lobby'', True)],
                  timestamp = None, thumbnail = None\<rparr>)"
    by (simp add: specific_channel_update_embed_def text_check_params_def read_param_def
        getattr_def ebind_def call_is_nsfw_def slowmode_readable_def field_line_def label_of_def
        general_def renamed_with_empty_overwrite_def)
  have c: "cls general = TextChannel" by (simp add: general_def)
  from general_enumerates general_overwrites_differ p f c show ?thesis
    by (simp add: make_channel_update_embed_def ebind_def)
qed

text \<open>
  C1, amended.  For a text, voice or category channel, when the overwrite of some subject
  differs between the snapshots, the overwrite mappings differ and the result is the
  permission embed: its text is the lines of the permission diff and it has no Before and
  After fields, whatever attributes changed.  When no subject's overwrite differs (the
  mappings are equal, or differ only by empty overwrites added or removed), no permission
  embed is produced and the result is the one for equal overwrite mappings, the field
  diff.
\<close>

theorem permission_diff_excludes_field_diff:
  assumes "enumerates all_overwrites b a"
  shows "(cls b \<noteq> OtherChannel \<and> (\<exists>t. overwrites_for b t \<noteq> overwrites_for a t) \<longrightarrow>
            overwrites b \<noteq> overwrites a \<and>
            (\<exists>ct. channel_type b = Some ct \<and>
               make_channel_update_embed L now all_overwrites b a =
                 Inr (Some \<lparr>title = Some (ct @ '' permissions updated''),
                            description = Some (mention a @ '' permissions have been updated.''
                              @ newline @ newline
                              @ join newline (embed_lines L b a all_overwrites)),
                            color = dark_blue, embed_fields = [], timestamp = Some now,
                            thumbnail = None\<rparr>)))
       \<and> ((\<forall>t. overwrites_for b t = overwrites_for a t) \<longrightarrow>
            make_channel_update_embed L now all_overwrites b a =
            make_channel_update_embed L now all_overwrites (b\<lparr>overwrites := overwrites a\<rparr>) a)"
proof (intro conjI impI)
  assume h: "cls b \<noteq> OtherChannel \<and> (\<exists>t. overwrites_for b t \<noteq> overwrites_for a t)"
  then obtain t where t: "overwrites_for b t \<noteq> overwrites_for a t" by blast
  from overwrites_for_differ [OF t] assms have m: "t \<in> set all_overwrites"
    and d: "overwrites b \<noteq> overwrites a"
    by (simp_all add: enumerates_def)
  from h channel_type_known obtain ct where ct: "channel_type b = Some ct" by blast
  from d show "overwrites b \<noteq> overwrites a" .
  from make_permissions_changed [OF m t ct] ct
  show "\<exists>ct. channel_type b = Some ct \<and>
               make_channel_update_embed L now all_overwrites b a =
                 Inr (Some \<lparr>title = Some (ct @ '' permissions updated''),
                            description = Some (mention a @ '' permissions have been updated.''
                              @ newline @ newline
                              @ join newline (embed_lines L b a all_overwrites)),
                            color = dark_blue, embed_fields = [], timestamp = Some now,
                            thumbnail = None\<rparr>)"
    by blast
next
  assume "\<forall>t. overwrites_for b t = overwrites_for a t"
  then show "make_channel_update_embed L now all_overwrites b a =
            make_channel_update_embed L now all_overwrites (b\<lparr>overwrites := overwrites a\<rparr>) a"
    by (rule make_overwrites_unchanged)
qed

theorem permission_diff_excludes_field_diff_witness:
  "enumerates [Role 1, Role 2] muted unmuted
   \<and> cls muted \<noteq> OtherChannel
   \<and> overwrites_for muted (Role 2) \<noteq> overwrites_for unmuted (Role 2)
   \<and> make_channel_update_embed example_lib 9 [Role 1, Role 2] muted unmuted =
       Inr (Some \<lparr>title = Some ''Text channel permissions updated'',
                  description = Some (''<#10> permissions have been updated.''
                    @ newline @ newline @ ''**Overwrite changes for <@&2>:**'' @ newline
                    @ ''**`Send messages:`** '' @ cross_mark @ '' '' @ arrow @ '' '' @ check_mark),
                  color = dark_blue, embed_fields = [], timestamp = Some 9, thumbnail = None\<rparr>)
   \<and> enumerates [Role 1] general renamed_with_empty_overwrite
   \<and> overwrites_for general (Role 1) = overwrites_for renamed_with_empty_overwrite (Role 1)
   \<and> make_channel_update_embed example_lib 9 [Role 1] general renamed_with_empty_overwrite =
     make_channel_update_embed example_lib 9 [Role 1]
       (general\<lparr>overwrites := overwrites renamed_with_empty_overwrite\<rparr>)
       renamed_with_empty_overwrite"
proof -
  have c: "cls muted \<noteq> OtherChannel" "channel_type muted = Some ''Text channel''"
          "mention unmuted = ''<#10>''"
    by (simp_all add: muted_def unmuted_def general_def channel_type_def)
  have s: "\<forall>t. overwrites_for general t = overwrites_for renamed_with_empty_overwrite t"
    by (simp add: overwrites_for_def general_def renamed_with_empty_overwrite_def)
  have x: "\<exists>t. overwrites_for muted t \<noteq> overwrites_for unmuted t"
    using role2_differs by blast
  from permission_diff_excludes_field_diff [OF muted_enumerates, of example_lib 9] c(1) x
  obtain ct where ct: "channel_type muted = Some ct" and
    r: "make_channel_update_embed example_lib 9 [Role 1, Role 2] muted unmuted =
          Inr (Some \<lparr>title = Some (ct @ '' permissions updated''),
                     description = Some (mention unmuted @ '' permissions have been updated.''
                       @ newline @ newline
                       @ join newline (embed_lines example_lib muted unmuted [Role 1, Role 2])),
                     color = dark_blue, embed_fields = [], timestamp = Some 9,
                     thumbnail = None\<rparr>)"
    by blast
  from ct c(2) have t: "ct = ''Text channel''" by simp
  from r
  have m: "make_channel_update_embed example_lib 9 [Role 1, Role 2] muted unmuted =
       Inr (Some \<lparr>title = Some ''Text channel permissions updated'',
                  description = Some (''<#10> permissions have been updated.''
                    @ newline @ newline @ ''**Overwrite changes for <@&2>:**'' @ newline
                    @ ''**`Send messages:`** '' @ cross_mark @ '' '' @ arrow @ '' '' @ check_mark),
                  color = dark_blue, embed_fields = [], timestamp = Some 9, thumbnail = None\<rparr>)"
    unfolding muted_lines t c(3) by simp
  from permission_diff_excludes_field_diff [OF general_enumerates, of example_lib 9] s
  have n: "make_channel_update_embed example_lib 9 [Role 1] general renamed_with_empty_overwrite =
     make_channel_update_embed example_lib 9 [Role 1]
       (general\<lparr>overwrites := overwrites renamed_with_empty_overwrite\<rparr>)
       renamed_with_empty_overwrite"
    by simp
  from m n c(1) general_enumerates s role2_differs muted_enumerates show ?thesis by simp
qed

text \<open>
  C5.  Every subject but \<open>y\<close> has the same overwrite in both snapshots, and the overwrite
  of \<open>y\<close> differs only in \<open>send_messages\<close>, which goes from \<open>False\<close> to \<open>True\<close>.  Then the
  lines of the permission diff are the header naming \<open>y\<close> and the one permission line
  "Send messages:" with the cross, the arrow and the check mark (the label is wrapped in
  the markdown for bold code), and the embed's description is the channel's mention, the
  fixed sentence, an empty line and these two lines.  The symbols are the check mark for
  \<open>True\<close>, the cross for \<open>False\<close> and the white square for an unset permission.
\<close>

theorem send_messages_flip_lines:
  assumes "enumerates all_overwrites b a"
      and "distinct (PURE_FLAGS L)" and "''send_messages'' \<in> set (PURE_FLAGS L)"
      and "cls b \<noteq> OtherChannel"
      and "\<forall>x. x \<noteq> y \<longrightarrow> overwrites_for b x = overwrites_for a x"
      and "overwrites_for b y ''send_messages'' = Some False"
      and "overwrites_for a y ''send_messages'' = Some True"
      and "\<forall>k. k \<noteq> ''send_messages'' \<longrightarrow> overwrites_for b y k = overwrites_for a y k"
  shows "embed_lines L b a all_overwrites =
           [''**Overwrite changes for '' @ target_mention L y @ '':**'',
            ''**`Send messages:`** '' @ cross_mark @ '' '' @ arrow @ '' '' @ check_mark]
       \<and> (\<exists>ct. channel_type b = Some ct \<and>
             make_channel_update_embed L now all_overwrites b a =
               Inr (Some \<lparr>title = Some (ct @ '' permissions updated''),
                          description = Some (mention a @ '' permissions have been updated.''
                            @ newline @ newline
                            @ ''**Overwrite changes for '' @ target_mention L y @ '':**''
                            @ newline
                            @ ''**`Send messages:`** '' @ cross_mark @ '' '' @ arrow @ '' ''
                            @ check_mark),
                          color = dark_blue, embed_fields = [], timestamp = Some now,
                          thumbnail = None\<rparr>))
       \<and> emoji (Some True) = check_mark \<and> emoji (Some False) = cross_mark
       \<and> emoji None = white_square"
proof -
  from assms(6,7) have d: "overwrites_for b y \<noteq> overwrites_for a y" by auto
  from overwrites_for_differ(2) [OF d] assms(1) have m: "y \<in> set all_overwrites"
    and di: "distinct all_overwrites"
    by (simp_all add: enumerates_def)
  from assms(6,7) have ne: "overwrites_for b y ''send_messages'' \<noteq> overwrites_for a y ''send_messages''"
    by simp
  have "embed_lines L b a all_overwrites =
          [overwrite_header L y,
           perm_line (''send_messages'', overwrites_for b y ''send_messages'')
                     (''send_messages'', overwrites_for a y ''send_messages'')]"
    using embed_lines_single_target [OF di m assms(5) d, of L]
          perm_lines_single_change [OF assms(2,3,8) ne]
    by simp
  with assms(6,7) have l: "embed_lines L b a all_overwrites =
           [''**Overwrite changes for '' @ target_mention L y @ '':**'',
            ''**`Send messages:`** '' @ cross_mark @ '' '' @ arrow @ '' '' @ check_mark]"
    by (simp add: send_messages_line overwrite_header_def)
  from assms(4) channel_type_known obtain ct where ct: "channel_type b = Some ct" by blast
  from make_permissions_changed [OF m d ct, of L now] l ct show ?thesis
    by simp
qed

theorem send_messages_flip_lines_witness:
  "enumerates [Role 1, Role 2] muted unmuted
   \<and> overwrites_for muted (Role 2) ''send_messages'' = Some False
   \<and> overwrites_for unmuted (Role 2) ''send_messages'' = Some True
   \<and> overwrites_for muted (Role 1) = overwrites_for unmuted (Role 1)
   \<and> embed_lines example_lib muted unmuted [Role 1, Role 2] =
       [''**Overwrite changes for <@&2>:**'',
        ''**`Send messages:`** '' @ cross_mark @ '' '' @ arrow @ '' '' @ check_mark]"
proof -
  have 1: "distinct (PURE_FLAGS example_lib)" "''send_messages'' \<in> set (PURE_FLAGS example_lib)"
    by (simp_all add: example_lib_def)
  have 2: "cls muted \<noteq> OtherChannel" by (simp add: muted_def general_def)
  have 3: "overwrites_for muted (Role 2) ''send_messages'' = Some False"
          "overwrites_for unmuted (Role 2) ''send_messages'' = Some True"
    by (simp_all add: overwrites_for_def muted_def unmuted_def)
  have 4: "\<forall>k. k \<noteq> ''send_messages'' \<longrightarrow>
             overwrites_for muted (Role 2) k = overwrites_for unmuted (Role 2) k"
    by (simp add: overwrites_for_def muted_def unmuted_def)
  have 5: "target_mention example_lib (Role 2) = ''<@&2>''"
    by (simp add: example_lib_def show_nat_digits)
  from send_messages_flip_lines [OF muted_enumerates 1 2 muted_others 3 4, of 0] 3 5
    muted_enumerates muted_others
  show ?thesis by simp
qed

subsection \<open>A channel of another class\<close>

text \<open>
  C2.  For a channel that is neither a text, a voice nor a category channel in which
  role 2's \<open>send_messages\<close> changes, \<open>make_channel_update_embed\<close> does not return: the title
  of the permission embed reads \<open>channel_type\<close>, which no branch has assigned.
\<close>

theorem other_class_permission_change_raises:
  "enumerates [Role 1, Role 2] store_muted store_unmuted
   \<and> cls store_muted = OtherChannel
   \<and> make_channel_update_embed example_lib 9 [Role 1, Role 2] store_muted store_unmuted =
       Inl UnboundLocalError"
proof -
  have e: "enumerates [Role 1, Role 2] store_muted store_unmuted"
    using muted_enumerates by (simp add: enumerates_def store_muted_def store_unmuted_def)
  have c: "cls store_muted = OtherChannel" by (simp add: store_muted_def)
  have d: "overwrites_for store_muted (Role 2) \<noteq> overwrites_for store_unmuted (Role 2)"
    using role2_differs by (simp add: overwrites_for_def store_muted_def store_unmuted_def)
  have m: "Role 2 \<in> set [Role 1, Role 2]" by simp
  from permissions_embed_unbound [OF embed_lines_changed [OF m d] c, of example_lib]
       overwrites_for_differ(1) [OF d] e c
  show ?thesis by (simp add: make_channel_update_embed_def ebind_def)
qed

text \<open>
  Everywhere else the formatter returns: for a text, voice or category channel on every
  pair of snapshots, and for another class when no subject's overwrite differs, with
  nothing as the result.
\<close>

lemma read_param_declared:
  "\<forall>(k, p) \<in> set (declared_fields L c). \<exists>x y. read_param b a k p = Inr (x, y)"
  by (cases c)
     (simp_all add: declared_fields_def text_check_params_def voice_check_params_def
        category_check_params_def read_param_def getattr_def ebind_def call_is_nsfw_def
        slowmode_readable_def readable_bitrate_def)

lemma field_texts_total:
  assumes "\<forall>(k, p) \<in> set ps. \<exists>x y. read_param b a k p = Inr (x, y)"
  shows "\<exists>r. field_texts b a ps = Inr r"
  using assms
proof (induction ps)
  case Nil
  then show ?case by simp
next
  case (Cons kp ps)
  obtain k p where kp: "kp = (k, p)" by (cases kp)
  from Cons.prems kp obtain x y where r: "read_param b a k p = Inr (x, y)" by auto
  from Cons obtain bs as where "field_texts b a ps = Inr (bs, as)" by fastforce
  with r kp show ?case by (simp add: ebind_def)
qed

lemma make_total_known_class:
  assumes "cls b \<noteq> OtherChannel"
  shows "\<exists>r. make_channel_update_embed L now all_overwrites b a = Inr r"
proof -
  from assms obtain ct where ct: "channel_type b = Some ct"
    using channel_type_known by blast
  have "\<exists>r. field_texts b a (declared_fields L (cls b)) = Inr r"
    by (intro field_texts_total read_param_declared)
  then obtain bs as where f: "field_texts b a (declared_fields L (cls b)) = Inr (bs, as)"
    by fastforce
  have p: "channel_permissions_diff_embed L all_overwrites b a = Inr None
         \<or> (\<exists>e. channel_permissions_diff_embed L all_overwrites b a = Inr (Some e))"
    using ct by (simp add: channel_permissions_diff_embed_def Let_def)
  have s: "\<exists>r. specific_channel_update_embed b a (class_title (cls b))
                 (declared_fields L (cls b)) = Inr r"
    using f by (simp add: specific_channel_update_embed_def ebind_def)
  from p s show ?thesis
    by (auto simp: make_unfold ebind_def)
qed

lemma make_other_class_unchanged:
  assumes "cls b = OtherChannel"
      and "\<forall>t \<in> set all_overwrites. overwrites_for b t = overwrites_for a t"
  shows "make_channel_update_embed L now all_overwrites b a = Inr None"
  using assms(1) permissions_embed_unchanged [OF embed_lines_unchanged [OF assms(2)], of L]
  by (simp add: make_unfold ebind_def)

section \<open>The field diff\<close>

lemma specific_Some:
  assumes "specific_channel_update_embed b a ttl ps = Inr (Some e)"
  shows "\<exists>bs as. field_texts b a ps = Inr (bs, as) \<and> as \<noteq> []
           \<and> e = \<lparr>title = Some ttl, description = Some (''**Channel:** '' @ mention a),
                   color = dark_blue,
                   embed_fields = [(''Before'', join newline bs, True),
                                   (''After'', join newline as, True)],
                   timestamp = None, thumbnail = None\<rparr>"
  using assms
  by (auto simp: specific_channel_update_embed_def ebind_def split: sum.splits if_splits)

lemma field_texts_all_equal:
  assumes "\<forall>(k, p) \<in> set ps. \<exists>x y. read_param b a k p = Inr (x, y) \<and> py_eq x y"
  shows "field_texts b a ps = Inr ([], [])"
  using assms
proof (induction ps)
  case Nil
  then show ?case by simp
next
  case (Cons kp ps)
  obtain k p where kp: "kp = (k, p)" by (cases kp)
  from Cons.prems kp obtain x y where r: "read_param b a k p = Inr (x, y)" and e: "py_eq x y"
    by auto
  from Cons.prems have "field_texts b a ps = Inr ([], [])"
    by (intro Cons.IH) auto
  with r e kp show ?case by (simp add: ebind_def)
qed

lemma make_no_field_differs:
  assumes "overwrites b = overwrites a"
      and "\<forall>(k, p) \<in> set (declared_fields L (cls b)).
             \<exists>x y. read_param b a k p = Inr (x, y) \<and> py_eq x y"
  shows "make_channel_update_embed L now all_overwrites b a = Inr None"
  using assms(1) field_texts_all_equal [OF assms(2)]
  by (simp add: make_unfold ebind_def specific_channel_update_embed_def)

lemma field_texts_labels:
  assumes "field_texts b a ps = Inr (bs, as)"
  shows "\<exists>ls. subseq ls (map (\<lambda>(k, p). label_of p) ps)
              \<and> list_all2 labelled ls bs \<and> list_all2 labelled ls as"
  using assms
proof (induction ps arbitrary: bs as)
  case Nil
  then show ?case by simp
next
  case (Cons kp ps)
  obtain k p where kp: "kp = (k, p)" by (cases kp)
  from Cons.prems kp obtain x y bs' as' where
    r: "read_param b a k p = Inr (x, y)" and
    f: "field_texts b a ps = Inr (bs', as')" and
    res: "(bs, as) = (if \<not> py_eq x y
            then (field_line (label_of p) x # bs', field_line (label_of p) y # as')
            else (bs', as'))"
    by (auto simp: ebind_def split: sum.splits if_splits)
  from Cons.IH [OF f] obtain ls where
    ls: "subseq ls (map (\<lambda>(k, p). label_of p) ps)" "list_all2 labelled ls bs'"
        "list_all2 labelled ls as'"
    by blast
  show ?case
  proof (cases "py_eq x y")
    case True
    with res ls kp show ?thesis
      by (auto intro!: exI [of _ ls])
  next
    case False
    with res ls kp show ?thesis
      by (auto intro!: exI [of _ "label_of p # ls"] simp: labelled_field_line)
  qed
qed

text \<open>
  C6.  Two snapshots of a text channel have equal overwrites, names, NSFW flags, slowmode
  delays and categories, and their topics differ.  Then the result is the embed "Text
  Channel updated" whose Before field is the single line labelled Topic with the topic
  before, and whose After field is the single line labelled Topic with the topic after.
\<close>

theorem topic_only_update:
  assumes "cls b = TextChannel" and "overwrites b = overwrites a"
      and "name b = name a" and "nsfw b = nsfw a" and "slowmode_delay b = slowmode_delay a"
      and "map_option fst (category b) = map_option fst (category a)"
      and "topic b \<noteq> topic a"
  shows "make_channel_update_embed L now all_overwrites b a =
           Inr (Some \<lparr>title = Some ''Text Channel updated'',
                      description = Some (''**Channel:** '' @ mention a),
                      color = dark_blue,
                      embed_fields = [(''Before'', ''**Topic:** '' @ topic_str (topic b), True),
                                      (''After'', ''**Topic:** '' @ topic_str (topic a), True)],
                      timestamp = Some now, thumbnail = None\<rparr>)"
proof -
  from assms(3-7) have "field_texts b a (text_check_params L) =
      Inr ([''**Topic:** '' @ topic_str (topic b)], [''**Topic:** '' @ topic_str (topic a)])"
    by (simp add: text_check_params_def read_param_def getattr_def ebind_def call_is_nsfw_def
        slowmode_readable_def py_eq_topic py_eq_category py_eq_refl py_str_topic field_line_def
        label_of_def)
  with assms(1,2) show ?thesis
    by (simp add: make_unfold ebind_def specific_channel_update_embed_def class_title_def
        declared_fields_def)
qed

theorem topic_only_update_witness:
  "cls general = TextChannel \<and> overwrites general = overwrites retopiced
   \<and> topic general \<noteq> topic retopiced
   \<and> make_channel_update_embed example_lib 9 [] general retopiced =
       Inr (Some \<lparr>title = Some ''Text Channel updated'',
                  description = Some ''**Channel:** <#10>'',
                  color = dark_blue,
                  embed_fields = [(''Before'', ''**Topic:** old'', True),
                                  (''After'', ''**Topic:** new'', True)],
                  timestamp = Some 9, thumbnail = None\<rparr>)"
  using topic_only_update [of general retopiced example_lib 9 "[]"]
  by (simp add: general_def retopiced_def topic_str_def)

text \<open>
  For a text channel, a voice channel and a channel of another class, two snapshots with
  equal overwrites and equal attributes give nothing, whether or not they are the same
  object, and the handler returns without sending.
\<close>

lemma identical_data_no_embed:
  assumes "cls b \<noteq> CategoryChannel" and "overwrites b = overwrites a"
      and "name b = name a" and "topic b = topic a" and "nsfw b = nsfw a"
      and "slowmode_delay b = slowmode_delay a" and "bitrate b = bitrate a"
      and "user_limit b = user_limit a"
      and "map_option fst (category b) = map_option fst (category a)"
  shows "make_channel_update_embed L now all_overwrites b a = Inr None"
    and "on_guild_channel_update get_log_channel L now all_overwrites g b a out = Inr out"
proof -
  have "\<forall>(k, p) \<in> set (declared_fields L (cls b)).
             \<exists>x y. read_param b a k p = Inr (x, y) \<and> py_eq x y"
    using assms
    by (cases "cls b")
       (simp_all add: declared_fields_def text_check_params_def voice_check_params_def
          read_param_def getattr_def ebind_def call_is_nsfw_def slowmode_readable_def
          readable_bitrate_def py_eq_refl py_eq_category)
  with assms(2) show m: "make_channel_update_embed L now all_overwrites b a = Inr None"
    by (rule make_no_field_differs)
  then show "on_guild_channel_update get_log_channel L now all_overwrites g b a out = Inr out"
    by (simp add: on_guild_channel_update_def ebind_def)
qed

text \<open>
  C7.  Two snapshot objects of a category channel with equal overwrites, names and NSFW
  flags do not give nothing: the entry \<open>"is_nsfw": "NSFW"\<close> of the category's
  \<open>check_params\<close> has no callable, so the bound methods of the two objects are compared and
  printed, and an embed with an NSFW line results.  Two such snapshot objects of a text
  channel, whose entry calls \<open>is_nsfw\<close>, give nothing.
\<close>

theorem category_identical_data_gives_embed:
  "overwrites staff = overwrites staff_copy
   \<and> name staff = name staff_copy
   \<and> nsfw staff = nsfw staff_copy
   \<and> make_channel_update_embed example_lib 9 [] staff staff_copy =
       Inr (Some \<lparr>title = Some ''Category Channel updated'',
                  description = Some ''**Channel:** <#20>'',
                  color = dark_blue,
                  embed_fields =
                    [(''Before'',
                      ''**NSFW:** <bound method CategoryChannel.is_nsfw of <CategoryChannel id=20>>'',
                      True),
                     (''After'',
                      ''**NSFW:** <bound method CategoryChannel.is_nsfw of <CategoryChannel id=20>>'',
                      True)],
                  timestamp = Some 9, thumbnail = None\<rparr>)
   \<and> make_channel_update_embed example_lib 9 [] general general_copy = Inr None"
proof -
  have t: "make_channel_update_embed example_lib 9 [] general general_copy = Inr None"
    by (rule identical_data_no_embed) (simp_all add: general_def general_copy_def)
  have c: "make_channel_update_embed example_lib 9 [] staff staff_copy =
       Inr (Some \<lparr>title = Some ''Category Channel updated'',
                  description = Some ''**Channel:** <#20>'',
                  color = dark_blue,
                  embed_fields =
                    [(''Before'',
                      ''**NSFW:** <bound method CategoryChannel.is_nsfw of <CategoryChannel id=20>>'',
                      True),
                     (''After'',
                      ''**NSFW:** <bound method CategoryChannel.is_nsfw of <CategoryChannel id=20>>'',
                      True)],
                  timestamp = Some 9, thumbnail = None\<rparr>)"
    by (simp add: make_unfold ebind_def specific_channel_update_embed_def class_title_def
        declared_fields_def category_check_params_def read_param_def getattr_def field_line_def
        label_of_def class_name_def staff_def staff_copy_def)
  from t c show ?thesis by (simp add: staff_def staff_copy_def)
qed

text \<open>A snapshot compared with itself gives nothing, for every class.\<close>

lemma same_snapshot_no_embed:
  "make_channel_update_embed L now all_overwrites a a = Inr None"
proof -
  have "\<forall>(k, p) \<in> set (declared_fields L (cls a)).
             \<exists>x y. read_param a a k p = Inr (x, y) \<and> py_eq x y"
    by (cases "cls a")
       (simp_all add: declared_fields_def text_check_params_def voice_check_params_def
          category_check_params_def read_param_def getattr_def ebind_def call_is_nsfw_def
          slowmode_readable_def readable_bitrate_def py_eq_refl)
  then show ?thesis
    by (intro make_no_field_differs) simp_all
qed

text \<open>
  C8.  When the result is a field-diff embed (an embed with fields), the loop of the field
  diff has returned the two lists of lines \<open>field_before_text\<close> and \<open>field_after_text\<close>; the
  embed's fields are Before and After, the two lists joined by newlines; the lists are not
  empty and have the same length; and there is a subsequence of the labels declared for
  the class, in their declared order, such that the line at each position of either list
  carries the label at that position.
\<close>

theorem field_diff_columns_aligned:
  assumes "make_channel_update_embed L now all_overwrites b a = Inr (Some e)"
      and "embed_fields e \<noteq> []"
  shows "\<exists>field_before_text field_after_text ls.
           field_texts b a (declared_fields L (cls b)) = Inr (field_before_text, field_after_text)
         \<and> embed_fields e = [(''Before'', join newline field_before_text, True),
                             (''After'', join newline field_after_text, True)]
         \<and> length field_before_text = length field_after_text
         \<and> field_before_text \<noteq> []
         \<and> subseq ls (declared_labels L (cls b))
         \<and> length ls = length field_before_text
         \<and> (\<forall>i < length ls. labelled (ls ! i) (field_before_text ! i)
                              \<and> labelled (ls ! i) (field_after_text ! i))"
proof -
  from assms obtain fe where
    fe: "specific_channel_update_embed b a (class_title (cls b)) (declared_fields L (cls b))
           = Inr (Some fe)" and e: "e = fe\<lparr>timestamp := Some now\<rparr>"
    by (auto simp: make_unfold ebind_def dest: permissions_embed_no_fields
          split: sum.splits option.splits if_splits)
  from specific_Some [OF fe] obtain bs as where
    ft: "field_texts b a (declared_fields L (cls b)) = Inr (bs, as)" and ne: "as \<noteq> []" and
    fe': "embed_fields fe = [(''Before'', join newline bs, True), (''After'', join newline as, True)]"
    by auto
  from field_texts_labels [OF ft] obtain ls where
    ls: "subseq ls (declared_labels L (cls b))" "list_all2 labelled ls bs"
        "list_all2 labelled ls as"
    by (auto simp: declared_labels_def)
  from ls(2) have "length ls = length bs" by (rule list_all2_lengthD)
  moreover from ls(3) have "length ls = length as" by (rule list_all2_lengthD)
  ultimately have len: "length ls = length bs" "length ls = length as" by simp_all
  with ne have nb: "bs \<noteq> []" by auto
  from ls have pos: "\<forall>i < length ls. labelled (ls ! i) (bs ! i) \<and> labelled (ls ! i) (as ! i)"
    by (simp add: list_all2_conv_all_nth)
  from e fe' have ef: "embed_fields e =
      [(''Before'', join newline bs, True), (''After'', join newline as, True)]"
    by simp
  from ft ef len nb ls(1) pos show ?thesis
    by (intro exI [of _ bs] exI [of _ as] exI [of _ ls]) simp
qed

lemma renamed_retopiced_texts:
  "field_texts general renamed_retopiced (declared_fields example_lib (cls general)) =
     Inr ([''**Name:** general'', ''**Topic:** old''], [''**Name:** lobby'', ''**Topic:** new''])"
  by (simp add: declared_fields_def text_check_params_def read_param_def getattr_def ebind_def
      call_is_nsfw_def slowmode_readable_def field_line_def label_of_def general_def
      renamed_retopiced_def)

lemma renamed_retopiced_embed:
  "make_channel_update_embed example_lib 9 [] general renamed_retopiced =
       Inr (Some \<lparr>title = Some ''Text Channel updated'',
                  description = Some ''**Channel:** <#10>'',
                  color = dark_blue,
                  embed_fields =
                    [(''Before'', ''**Name:** general'' @ newline @ ''**Topic:** old'', True),
                     (''After'', ''**Name:** lobby'' @ newline @ ''**Topic:** new'', True)],
                  timestamp = Some 9, thumbnail = None\<rparr>)"
  by (simp add: make_unfold ebind_def specific_channel_update_embed_def class_title_def
      declared_fields_def text_check_params_def read_param_def getattr_def call_is_nsfw_def
      slowmode_readable_def field_line_def label_of_def general_def renamed_retopiced_def)

theorem field_diff_columns_aligned_witness:
  "\<exists>e ls. make_channel_update_embed example_lib 9 [] general renamed_retopiced = Inr (Some e)
        \<and> field_texts general renamed_retopiced (declared_fields example_lib (cls general)) =
            Inr ([''**Name:** general'', ''**Topic:** old''],
                 [''**Name:** lobby'', ''**Topic:** new''])
        \<and> embed_fields e =
            [(''Before'', ''**Name:** general'' @ newline @ ''**Topic:** old'', True),
             (''After'', ''**Name:** lobby'' @ newline @ ''**Topic:** new'', True)]
        \<and> subseq ls (declared_labels example_lib (cls general))
        \<and> length ls = 2
        \<and> labelled (ls ! 0) ''**Name:** general'' \<and> labelled (ls ! 0) ''**Name:** lobby''
        \<and> labelled (ls ! 1) ''**Topic:** old'' \<and> labelled (ls ! 1) ''**Topic:** new''"
proof -
  let ?e = "\<lparr>title = Some ''Text Channel updated'',
                  description = Some ''**Channel:** <#10>'',
                  color = dark_blue,
                  embed_fields =
                    [(''Before'', ''**Name:** general'' @ newline @ ''**Topic:** old'', True),
                     (''After'', ''**Name:** lobby'' @ newline @ ''**Topic:** new'', True)],
                  timestamp = Some 9, thumbnail = None\<rparr>"
  have m: "make_channel_update_embed example_lib 9 [] general renamed_retopiced = Inr (Some ?e)"
    by (rule renamed_retopiced_embed)
  have n: "embed_fields ?e \<noteq> []" by simp
  from field_diff_columns_aligned [OF m n] obtain bs as ls where
    ft: "field_texts general renamed_retopiced (declared_fields example_lib (cls general))
           = Inr (bs, as)" and
    sub: "subseq ls (declared_labels example_lib (cls general))" and
    len: "length ls = length bs" and
    pos: "\<forall>i < length ls. labelled (ls ! i) (bs ! i) \<and> labelled (ls ! i) (as ! i)"
    by blast
  from ft have bs: "bs = [''**Name:** general'', ''**Topic:** old'']"
    and as: "as = [''**Name:** lobby'', ''**Topic:** new'']"
    by (simp_all add: renamed_retopiced_texts)
  from len bs have l2: "length ls = 2" by simp
  from pos l2 have p0: "labelled (ls ! 0) (bs ! 0) \<and> labelled (ls ! 0) (as ! 0)"
    and p1: "labelled (ls ! 1) (bs ! 1) \<and> labelled (ls ! 1) (as ! 1)"
    by simp_all
  from m sub l2 p0 p1 bs as renamed_retopiced_texts show ?thesis
    by (intro exI [of _ ?e] exI [of _ ls]) simp
qed

section \<open>The log channel resolver\<close>

text \<open>
  When the store answers \<open>None\<close>, \<open>MessageLog.send_log\<close> reports \<open>False\<close> and sends nothing,
  while \<open>ServerLog.send_log\<close> raises from \<open>int(None)\<close> before it reaches the guild.
\<close>

lemma MessageLog_send_log_absent:
  assumes "get_log_channel ''voice_log'' (guild_id g) = None"
  shows "MessageLog_send_log get_log_channel g payload out = Inr (False, out)"
  using assms by (simp add: MessageLog_send_log_def get_channel_def)

lemma ServerLog_send_log_absent:
  assumes "get_log_channel ''server_log'' (guild_id g) = None"
  shows "ServerLog_send_log get_log_channel g payload out = Inl TypeError"
  using assms by (simp add: ServerLog_send_log_def py_int_def ebind_def)

text \<open>
  C3.  With no log channel configured for the guild, the store answering \<open>None\<close>,
  \<open>ServerLog.send_log\<close> does not return \<open>False\<close>: it raises \<open>TypeError\<close>.  The send_log of the
  voice log, which passes the id on without \<open>int\<close>, returns \<open>False\<close> and sends nothing.
\<close>

theorem server_log_int_of_none_raises:
  "empty_store ''server_log'' (guild_id example_guild) = None
   \<and> ServerLog_send_log empty_store example_guild owner_only_embed [] = Inl TypeError
   \<and> MessageLog_send_log empty_store example_guild owner_only_embed [] = Inr (False, [])"
  by (simp add: ServerLog_send_log_def MessageLog_send_log_def empty_store_def py_int_def
      get_channel_def ebind_def)

lemma ServerLog_send_log_unresolved:
  assumes "get_log_channel ''server_log'' (guild_id g) = Some i" and "channels g i = None"
  shows "ServerLog_send_log get_log_channel g payload out = Inr (False, out)"
  using assms
  by (simp add: ServerLog_send_log_def py_int_def get_channel_def ebind_def)

lemma MessageLog_send_log_unresolved:
  assumes "get_log_channel ''voice_log'' (guild_id g) = Some j" and "channels g j = None"
  shows "MessageLog_send_log get_log_channel g payload out = Inr (False, out)"
  using assms
  by (simp add: MessageLog_send_log_def get_channel_def)

text \<open>
  C4.  When the store answers, for the log category of a cog, a channel id that is no
  channel of the guild, the \<open>send_log\<close> of that cog returns \<open>False\<close> and the list of sent
  messages is unchanged.  This holds of each cog by itself, whatever the store answers for
  the other category.
\<close>

theorem send_log_unresolved_id:
  "(get_log_channel ''server_log'' (guild_id g) = Some i \<and> channels g i = None \<longrightarrow>
      ServerLog_send_log get_log_channel g payload out = Inr (False, out))
   \<and> (get_log_channel ''voice_log'' (guild_id g) = Some j \<and> channels g j = None \<longrightarrow>
      MessageLog_send_log get_log_channel g payload out = Inr (False, out))"
  by (simp add: ServerLog_send_log_unresolved MessageLog_send_log_unresolved)

theorem send_log_unresolved_id_witness:
  "server_stale_store ''server_log'' (guild_id example_guild) = Some 7
   \<and> server_stale_store ''voice_log'' (guild_id example_guild) = None
   \<and> channels example_guild 7 = None
   \<and> ServerLog_send_log server_stale_store example_guild owner_only_embed [] = Inr (False, [])
   \<and> voice_stale_store ''voice_log'' (guild_id example_guild) = Some 7
   \<and> voice_stale_store ''server_log'' (guild_id example_guild) = None
   \<and> MessageLog_send_log voice_stale_store example_guild owner_only_embed [] = Inr (False, [])"
  using send_log_unresolved_id [of server_stale_store example_guild 7 owner_only_embed "[]" 7]
        send_log_unresolved_id [of voice_stale_store example_guild 7 owner_only_embed "[]" 7]
  by (simp add: server_stale_store_def voice_stale_store_def example_guild_def)

section \<open>The sudo gate\<close>

text \<open>
  C9.  For an author who is not in \<open>config.devs\<close>, invoking any of the six sudo commands
  fails the cog check: the callback is not run, the only effect is the owner-only embed
  that the check sends, and the bot is not closed, no extension is loaded or unloaded, no
  reaction is added and no shell command is run.  The callbacks of \<open>shutdown\<close> and
  \<open>restart\<close> also change nothing by themselves for such an author.
\<close>

theorem sudo_gated:
  assumes "author_id ctx \<notin> set (devs E)"
  shows "invoke E cmd ctx b = (ctx_send (EmbedMessage owner_only_embed) b, Some CheckFailure)
       \<and> closed (fst (invoke E cmd ctx b)) = closed b
       \<and> extensions (fst (invoke E cmd ctx b)) = extensions b
       \<and> reactions (fst (invoke E cmd ctx b)) = reactions b
       \<and> shell (fst (invoke E cmd ctx b)) = shell b
       \<and> sudo_shutdown E ctx b = b
       \<and> sudo_restart E ctx b = b"
  using assms
  by (simp add: invoke_def cog_check_def ctx_send_def sudo_shutdown_def sudo_restart_def)

theorem sudo_gated_witness:
  "author_id stranger \<notin> set (devs example_env)
   \<and> invoke example_env Shutdown stranger example_bot =
       (example_bot\<lparr>sent := [EmbedMessage owner_only_embed]\<rparr>, Some CheckFailure)
   \<and> closed (fst (invoke example_env Restart stranger example_bot)) = False"
  using sudo_gated [of stranger example_env Shutdown example_bot]
        sudo_gated [of stranger example_env Restart example_bot]
  by (simp add: stranger_def example_env_def example_bot_def ctx_send_def)

section \<open>The voice log embed\<close>

text \<open>
  C10.  When \<open>before.channel\<close> differs from \<open>after.channel\<close> and \<open>after.channel\<close> is absent,
  the "User left voice channel" embed has the empty string as its description: it is the
  embed emitted when the AFK flag did not change, and no embed with that title has any
  other description.
\<close>

theorem voice_left_description_empty:
  assumes "channel_ne (channel before) (channel after)" and "channel after = None"
  shows "(afk before = afk after \<longrightarrow>
            (\<exists>e. voice_embed m before after = Some e \<and>
                 title e = Some ''User left voice channel'' \<and> description e = Some []))
       \<and> (\<forall>e. voice_embed m before after = Some e \<and> title e = Some ''User left voice channel''
              \<longrightarrow> description e = Some [])"
  using assms by (auto simp: voice_embed_def)

theorem voice_left_description_empty_witness:
  "channel_ne (channel in_voice) (channel left_voice) \<and> channel left_voice = None
   \<and> voice_embed example_member in_voice left_voice =
       Some \<lparr>title = Some ''User left voice channel'', description = Some [], color = blue,
             embed_fields = [], timestamp = None, thumbnail = None\<rparr>"
  using voice_left_description_empty [of in_voice left_voice example_member]
  by (simp add: voice_embed_def in_voice_def left_voice_def)

end
